theory Spec2Isabelle
  imports Main "HOL-Library.Word" "HOL-Library.Signed_Division"
begin

section \<open>Go values\<close>

text \<open>
  A byte slice is a list of bytes; \<open>char\<close> is an 8-bit byte, so a literal such as
  \<open>''ab''\<close> is the two-byte slice \<open>"ab"\<close>. A Go \<open>error\<close> is an interface value:
  \<open>None\<close> is \<open>nil\<close>, \<open>Some EOF\<close> is \<open>io.EOF\<close> and \<open>Some (errorString m)\<close> is
  \<open>errors.New(m)\<close>, whose description (\<open>Error()\<close>) is \<open>m\<close>.
\<close>

type_synonym bytes = "char list"

datatype go_error = EOF | errorString string

type_synonym error = "go_error option"

text \<open>
  A panic ends the program. The ones this file can raise: an index out of range
  (\<open>args[0]\<close> on an empty argument slice), a method call on a nil interface
  (\<open>r.Read\<close> with \<open>r == nil\<close>), the explicit \<open>panic(err)\<close> of \<open>fetch2http\<close>, and
  the panic of \<open>syscall/js\<close> when a host value that is not an object is used as
  one (\<open>Value.Get\<close> on undefined, null or a primitive).
\<close>

datatype panic = IndexOutOfRange | NilDereference | PanicError go_error | ValueError

type_synonym 'a result = "panic + 'a"

text \<open>
  \<open>time.Duration\<close> is an \<open>int64\<close> count of nanoseconds; \<open>Milliseconds\<close> divides by
  \<open>1e6\<close>, truncating towards zero.
\<close>

type_synonym int64 = "64 word"
type_synonym Duration = "64 word"

definition Milliseconds :: "Duration \<Rightarrow> int64" where
  "Milliseconds d = word_of_int (sint d sdiv 1000000)"

section \<open>Host values\<close>

text \<open>
  A \<open>js.Value\<close> is undefined (also the zero \<open>js.Value\<close> of Go), null, a boolean, a
  string, or a host object; \<open>'a\<close> describes the objects. Numbers of the host are
  floating point and are left out; where the program reads one as an integer
  (\<open>Int()\<close>) the object's description holds that integer.
\<close>

datatype 'a jsvalue = Undefined | Null | Boolean bool | JString string | Object 'a

text \<open>\<open>Value.String()\<close> of \<open>syscall/js\<close>: the string itself, or a type tag.\<close>

fun go_String :: "'a jsvalue \<Rightarrow> string" where
  "go_String (JString s) = s"
| "go_String Undefined = ''<undefined>''"
| "go_String Null = ''<null>''"
| "go_String (Boolean b) = (if b then ''<boolean: true>'' else ''<boolean: false>'')"
| "go_String (Object x) = ''<object>''"

text \<open>
  A host object that a deferred value can be rejected with (an \<open>Error\<close>, a
  \<open>DOMException\<close>, a plain object): its properties, and the text the host's global
  \<open>String(...)\<close> coerces it to. Objects nested in a property are opaque. The
  payload of a rejection is any host value: such an object, undefined (what
  \<open>Promise.reject()\<close> passes), null, or a primitive.
\<close>

datatype jsobject = JsObject (props: "(string \<times> unit jsvalue) list") (coerced: string)

type_synonym payload = "jsobject jsvalue"

text \<open>
  \<open>Value.Get\<close> of \<open>syscall/js\<close>: the property of an object, undefined when the
  object has no such property; on a value that is not an object it panics.
\<close>

definition Get :: "payload \<Rightarrow> string \<Rightarrow> unit jsvalue result" where
  "Get v p =
     (case v of
        Object obj \<Rightarrow> (case map_of (props obj) p of None \<Rightarrow> Inr Undefined | Some x \<Rightarrow> Inr x)
      | _ \<Rightarrow> Inl ValueError)"

definition IsUndefined :: "'a jsvalue \<Rightarrow> bool" where
  "IsUndefined v = (v = Undefined)"

text \<open>The host's global \<open>String(...)\<close>: the value coerced to a host string.\<close>

fun js_String :: "payload \<Rightarrow> unit jsvalue" where
  "js_String (Object obj) = JString (coerced obj)"
| "js_String (JString s) = JString s"
| "js_String Undefined = JString ''undefined''"
| "js_String Null = JString ''null''"
| "js_String (Boolean b) = JString (if b then ''true'' else ''false'')"

text \<open>
  A deferred value (promise) of the host. It settles at most once: fulfilled with
  the arguments the host passes to the resolution callback (objects described by
  \<open>'a\<close>), or rejected with the arguments it passes to the rejection callback.
  \<open>Settles k s\<close> settles, and has the first of its callbacks run, while the
  poller of \<open>promiseHack\<close> is in its \<open>k+1\<close>-th sleep; \<open>Pending\<close> never settles.
  In \<open>Rejected gap args\<close>, \<open>gap\<close> is the number of further sleeps of the poller
  that begin before the host runs the callback chained behind the rejection
  callback: \<open>0\<close> when both callbacks run in the same sleep.
\<close>

datatype 'a settlement = Fulfilled "'a list" | Rejected nat "payload list"

datatype 'a promise = Pending | Settles nat "'a settlement"

section \<open>promiseHack\<close>

text \<open>The three variables the callbacks of \<open>promiseHack\<close> close over.\<close>

record 'a cells =
  ph_done :: bool
  ph_res :: "'a jsvalue"
  ph_err :: error

text \<open>
  The callback registered with \<open>catch\<close> (lines 23-38). It sets \<open>done\<close> first; the
  \<open>Get\<close> of line 30 panics when \<open>args[0]\<close> is not an object. It returns \<open>nil\<close>.
\<close>

definition catch_callback :: "payload list \<Rightarrow> 'a cells \<Rightarrow> 'a cells result" where
  "catch_callback args c =
     (let c1 = c\<lparr>ph_done := True\<rparr>
      in case args of
           [] \<Rightarrow> Inr (c1\<lparr>ph_err := Some (errorString '''')\<rparr>)
         | a # _ \<Rightarrow>
             (case Get a ''message'' of
                Inl pa \<Rightarrow> Inl pa
              | Inr msgAttr \<Rightarrow>
                  (let msg = (if IsUndefined msgAttr then go_String (js_String a)
                              else go_String msgAttr)
                   in Inr (c1\<lparr>ph_err := Some (errorString msg)\<rparr>))))"

text \<open>The callback registered with \<open>then\<close> (lines 39-44); \<open>args[0]\<close> panics on no argument.\<close>

definition then_callback :: "'a jsvalue list \<Rightarrow> 'a cells \<Rightarrow> 'a cells result" where
  "then_callback args c =
     (case args of
        [] \<Rightarrow> Inl IndexOutOfRange
      | a # _ \<Rightarrow> Inr (c\<lparr>ph_done := True, ph_res := a\<rparr>))"

text \<open>
  The chain \<open>CalledPromise.catch(..).then(..)\<close>, as the host runs it while the
  poller sleeps for the \<open>i+1\<close>-th time: \<open>then\<close> is registered on the promise that
  \<open>catch\<close> returns. A fulfilment passes through \<open>catch\<close> to the \<open>then\<close> callback.
  A rejection runs the \<open>catch\<close> callback in sleep \<open>k+1\<close>; its return value \<open>nil\<close>
  (null for the host) fulfils the promise of \<open>catch\<close>, so the \<open>then\<close> callback
  runs behind it with null, in the same sleep or \<open>gap\<close> sleeps later. The poller
  can wake between the two.
\<close>

definition host_turn :: "'a promise \<Rightarrow> nat \<Rightarrow> 'a cells \<Rightarrow> 'a cells result" where
  "host_turn p i c =
     (case p of
        Pending \<Rightarrow> Inr c
      | Settles k (Fulfilled vs) \<Rightarrow> if i = k then then_callback (map Object vs) c else Inr c
      | Settles k (Rejected gap args) \<Rightarrow>
          (case (if i = k then catch_callback args c else Inr c) of
             Inl pa \<Rightarrow> Inl pa
           | Inr c' \<Rightarrow> if i = k + gap then then_callback [Null] c' else Inr c'))"

text \<open>
  The loop of lines 47-52: sleep, then return when \<open>done\<close> is set. \<open>None\<close> is a
  loop that never ends.
\<close>

partial_function (option) poll ::
  "'a promise \<Rightarrow> nat \<Rightarrow> 'a cells \<Rightarrow> ('a jsvalue \<times> error) result option" where
  "poll p i c =
     (case host_turn p i c of
        Inl e \<Rightarrow> Some (Inl e)
      | Inr c' \<Rightarrow> if ph_done c' then Some (Inr (ph_res c', ph_err c')) else poll p (Suc i) c')"

declare poll.simps [code]

definition promiseHack :: "'a promise \<Rightarrow> ('a jsvalue \<times> error) result option" where
  "promiseHack CalledPromise =
     poll CalledPromise 0 \<lparr>ph_done = False, ph_res = Undefined, ph_err = None\<rparr>"

text \<open>
  A rejection whose payload \<open>Get\<close> can read: no argument at all, or an object as
  the first argument. For such a rejection, the description of the error the
  rejection callback records: the \<open>message\<close> of the object, or the text the host
  coerces the object to when it has no \<open>message\<close>.
\<close>

definition object_payload :: "payload list \<Rightarrow> bool" where
  "object_payload args = (case args of [] \<Rightarrow> True | Object obj # _ \<Rightarrow> True | _ \<Rightarrow> False)"

definition message_of :: "jsobject \<Rightarrow> unit jsvalue" where
  "message_of obj = (case map_of (props obj) ''message'' of None \<Rightarrow> Undefined | Some x \<Rightarrow> x)"

definition rejection_message :: "payload list \<Rightarrow> string" where
  "rejection_message args =
     (case args of
        Object obj # _ \<Rightarrow>
          if message_of obj = Undefined then coerced obj else go_String (message_of obj)
      | _ \<Rightarrow> '''')"

section \<open>Readers\<close>

text \<open>
  Go's \<open>copy(dst, src)\<close>, which \<open>js.CopyBytesToGo\<close> and \<open>js.CopyBytesToJS\<close> follow:
  the number of bytes copied is the smaller length, and the rest of \<open>dst\<close> stays.
\<close>

definition copy_bytes :: "bytes \<Rightarrow> bytes \<Rightarrow> nat \<times> bytes" where
  "copy_bytes dst src =
     (let n = min (length dst) (length src) in (n, take n src @ drop n dst))"

text \<open>
  The object a \<open>read()\<close> of a host stream reader resolves to: \<open>{done, value}\<close>, with
  \<open>value\<close> a \<open>Uint8Array\<close> (not read when \<open>done\<close> is set). A host stream reader is
  the list of the promises its next calls of \<open>read()\<close> return; past the list the
  stream is closed, and \<open>read()\<close> resolves at once to \<open>{done: true}\<close>.
\<close>

datatype read_result = ReadResult (rr_done: bool) (rr_value: bytes)

type_synonym stream_reader = "read_result promise list"

definition call_read :: "stream_reader \<Rightarrow> read_result promise \<times> stream_reader" where
  "call_read sr =
     (case sr of
        [] \<Rightarrow> (Settles 0 (Fulfilled [ReadResult True []]), [])
      | p # ps \<Rightarrow> (p, ps))"

text \<open>
  The \<open>io.Reader\<close> values of the program: a \<open>*strings.Reader\<close> (its string and its
  read index), a \<open>*blobReader\<close> (its \<open>streamReader\<close>), and any other reader a caller
  attaches to a Request. The last is described by what its reads deliver, in
  order: each entry is a run of bytes and the error value returned with it (the
  \<open>io.Reader\<close> contract lets a read return bytes together with an error, such as
  \<open>io.EOF\<close> with the last bytes); a run longer than the buffer is delivered in
  pieces; past the list every read returns \<open>0, io.EOF\<close>.
\<close>

datatype Reader =
    strings_Reader string nat
  | blobReader stream_reader
  | scripted_Reader "(bytes \<times> error) list"

definition NewReader :: "string \<Rightarrow> Reader" where
  "NewReader s = strings_Reader s 0"

text \<open>
  A call \<open>n, err := r.Read(p)\<close> is modelled as taking the reader and the buffer
  and returning \<open>((n, err, p'), r')\<close>: the results, the buffer after the call and
  the reader after the call.
\<close>

type_synonym read_return = "(nat \<times> error \<times> bytes) \<times> Reader"

text \<open>\<open>strings.Reader.Read\<close> of the standard library.\<close>

definition strings_Reader_Read :: "string \<Rightarrow> nat \<Rightarrow> bytes \<Rightarrow> read_return" where
  "strings_Reader_Read s i b =
     (if i \<ge> length s then ((0, Some EOF, b), strings_Reader s i)
      else (let (n, b') = copy_bytes b (drop i s)
            in ((n, None, b'), strings_Reader s (i + n))))"

definition scripted_Reader_Read :: "(bytes \<times> error) list \<Rightarrow> bytes \<Rightarrow> read_return" where
  "scripted_Reader_Read script b =
     (case script of
        [] \<Rightarrow> ((0, Some EOF, b), scripted_Reader [])
      | (d, e) # rest \<Rightarrow>
          (let (n, b') = copy_bytes b d
           in if length d \<le> length b then ((n, e, b'), scripted_Reader rest)
              else ((n, None, b'), scripted_Reader ((drop n d, e) # rest))))"

text \<open>\<open>blobReader.Read\<close> (lines 134-144).\<close>

definition blobReader_Read :: "stream_reader \<Rightarrow> bytes \<Rightarrow> read_return result option" where
  "blobReader_Read streamReader p =
     (let (called, streamReader') = call_read streamReader
      in case promiseHack called of
           None \<Rightarrow> None
         | Some (Inl pa) \<Rightarrow> Some (Inl pa)
         | Some (Inr (result, err)) \<Rightarrow>
             (case err of
                Some e \<Rightarrow> Some (Inr ((0, Some e, p), blobReader streamReader'))
              | None \<Rightarrow>
                  (case result of
                     Object rr \<Rightarrow>
                       if rr_done rr then Some (Inr ((0, None, p), blobReader streamReader'))
                       else (let (n, p') = copy_bytes p (rr_value rr)
                             in Some (Inr ((n, None, p'), blobReader streamReader')))
                   | _ \<Rightarrow> Some (Inl ValueError))))"

text \<open>The call \<open>r.Read(p)\<close> through the interface.\<close>

definition Read :: "Reader \<Rightarrow> bytes \<Rightarrow> read_return result option" where
  "Read r p =
     (case r of
        strings_Reader s i \<Rightarrow> Some (Inr (strings_Reader_Read s i p))
      | scripted_Reader script \<Rightarrow> Some (Inr (scripted_Reader_Read script p))
      | blobReader streamReader \<Rightarrow> blobReader_Read streamReader p)"

text \<open>
  A caller that reads with fresh buffers of the given lengths, one \<open>Read\<close> each,
  and keeps what each call returned: the bytes \<open>p[:n]\<close> and the error.
\<close>

fun read_with_buffers :: "Reader \<Rightarrow> nat list \<Rightarrow> (bytes \<times> error) list result option" where
  "read_with_buffers r [] = Some (Inr [])"
| "read_with_buffers r (len # lens) =
     (case Read r (replicate len (CHR 0x00)) of
        None \<Rightarrow> None
      | Some (Inl pa) \<Rightarrow> Some (Inl pa)
      | Some (Inr ((n, err, p'), r')) \<Rightarrow>
          (case read_with_buffers r' lens of
             None \<Rightarrow> None
           | Some (Inl pa) \<Rightarrow> Some (Inl pa)
           | Some (Inr got) \<Rightarrow> Some (Inr ((take n p', err) # got))))"

section \<open>createReadableStream\<close>

text \<open>
  The function \<open>f\<close> that \<open>start\<close> hands to the host (lines 94-105), for the reader
  \<open>r\<close> that \<open>createReadableStream\<close> was given (\<open>None\<close> is a nil interface, whose
  \<open>Read\<close> panics). One call either closes the stream and returns undefined, or
  enqueues one chunk and returns \<open>f\<close> again.
\<close>

datatype pull_result = Closed | Enqueued bytes

definition pull :: "Reader option \<Rightarrow> (pull_result \<times> Reader option) result option" where
  "pull r =
     (case r of
        None \<Rightarrow> Some (Inl NilDereference)
      | Some rd \<Rightarrow>
          (case Read rd (replicate 100 (CHR 0x00)) of
             None \<Rightarrow> None
           | Some (Inl pa) \<Rightarrow> Some (Inl pa)
           | Some (Inr ((n, err, b), rd')) \<Rightarrow>
               (case err of
                  Some e \<Rightarrow> Some (Inr (Closed, Some rd'))
                | None \<Rightarrow>
                    (let (m, u) = copy_bytes (replicate n (CHR 0x00)) b
                     in Some (Inr (Enqueued u, Some rd'))))))"

text \<open>
  A host that drives the function: it calls the function \<open>start\<close> returned, and
  calls the function that call returns, until a call returns undefined (the
  stream is closed). \<open>received\<close> are the chunks enqueued so far. This is the
  protocol the function is written for ("return \<open>f\<close>" stands for "call me
  again"). The source sets only the \<open>start\<close> property of the underlying source
  and no \<open>pull\<close> property, so a standard \<open>ReadableStream\<close> never makes these calls:
  on such a host no chunk is ever enqueued and the stream is never closed.
\<close>

partial_function (option) host_pulls ::
  "Reader option \<Rightarrow> bytes list \<Rightarrow> bytes list result option" where
  "host_pulls r received =
     (case pull r of
        None \<Rightarrow> None
      | Some (Inl pa) \<Rightarrow> Some (Inl pa)
      | Some (Inr (Closed, r')) \<Rightarrow> Some (Inr received)
      | Some (Inr (Enqueued u, r')) \<Rightarrow> host_pulls r' (received @ [u]))"

declare host_pulls.simps [code]

section \<open>Host calls\<close>

text \<open>
  The request's cancellation signal: the \<open>signal\<close> of an \<open>AbortController\<close> whose
  \<open>abort\<close> was handed to \<open>setTimeout\<close> with the given milliseconds.
\<close>

datatype abort_signal = AbortSignal int64

datatype js_stream = ReadableStream "Reader option"

text \<open>
  The values of \<open>FetchArgs\<close> (a \<open>map[string]interface{}\<close>): the signal, the method,
  the headers object and the body stream. The map is kept as the list of its
  entries; its keys are distinct.
\<close>

datatype fetch_arg =
    V_signal "abort_signal jsvalue"
  | V_string string
  | V_headers "string \<rightharpoonup> string"
  | V_stream js_stream

type_synonym fetch_args = "(string \<times> fetch_arg) list"

text \<open>Go's \<open>delete(m, key)\<close>.\<close>

definition delete_key :: "string \<Rightarrow> fetch_args \<Rightarrow> fetch_args" where
  "delete_key k m = filter (\<lambda>kv. fst kv \<noteq> k) m"

text \<open>The calls the program makes into the host, in the order it makes them.\<close>

datatype host_call =
    Call_Object
  | New_AbortController
  | Call_setTimeout int64
  | New_ReadableStream "Reader option"
  | Call_fetch string fetch_args
  | Call_blob
  | Call_stream
  | Call_getReader
  | Call_forEach

definition strmap2obj :: "(string \<rightharpoonup> string) \<Rightarrow> host_call list \<times> fetch_arg" where
  "strmap2obj m = ([Call_Object], V_headers m)"

definition createSignal :: "int64 \<Rightarrow> host_call list \<times> abort_signal jsvalue" where
  "createSignal ms = ([New_AbortController, Call_setTimeout ms], Object (AbortSignal ms))"

definition createReadableStream :: "Reader option \<Rightarrow> host_call list \<times> js_stream" where
  "createReadableStream r = ([Call_Object, New_ReadableStream r], ReadableStream r)"

section \<open>Headers\<close>

text \<open>
  \<open>http.Header\<close> is a \<open>map[string][]string\<close>. \<open>Set\<close> stores the single value under
  the canonical form of the key, and \<open>Get\<close> looks the canonical form of the key
  up. \<open>textproto.CanonicalMIMEHeaderKey\<close>, as the standard library documents it:
  the first letter and any letter following a hyphen become upper case, the
  rest lower case; a key with a space or another byte that is not valid in a
  header field name is returned without modifications.
\<close>

type_synonym Header = "string \<rightharpoonup> string list"

definition is_lower_byte :: "char \<Rightarrow> bool" where
  "is_lower_byte c = (97 \<le> (of_char c :: nat) \<and> (of_char c :: nat) \<le> 122)"

definition is_upper_byte :: "char \<Rightarrow> bool" where
  "is_upper_byte c = (65 \<le> (of_char c :: nat) \<and> (of_char c :: nat) \<le> 90)"

definition is_digit_byte :: "char \<Rightarrow> bool" where
  "is_digit_byte c = (48 \<le> (of_char c :: nat) \<and> (of_char c :: nat) \<le> 57)"

definition to_upper_byte :: "char \<Rightarrow> char" where
  "to_upper_byte c = char_of ((of_char c :: nat) - 32)"

definition to_lower_byte :: "char \<Rightarrow> char" where
  "to_lower_byte c = char_of ((of_char c :: nat) + 32)"

text \<open>The token bytes of a header field name: letters, digits and \<open>!#$%&'*+-.^_`|~\<close>.\<close>

definition validHeaderFieldByte :: "char \<Rightarrow> bool" where
  "validHeaderFieldByte c =
     (is_lower_byte c \<or> is_upper_byte c \<or> is_digit_byte c \<or>
      (of_char c :: nat) \<in> {33, 35, 36, 37, 38, 39, 42, 43, 45, 46, 94, 95, 96, 124, 126})"

fun canonical_bytes :: "bool \<Rightarrow> string \<Rightarrow> string" where
  "canonical_bytes upper [] = []"
| "canonical_bytes upper (c # cs) =
     (let c' = (if upper \<and> is_lower_byte c then to_upper_byte c
                else if \<not> upper \<and> is_upper_byte c then to_lower_byte c
                else c)
      in c' # canonical_bytes (c' = CHR ''-'') cs)"

definition CanonicalMIMEHeaderKey :: "string \<Rightarrow> string" where
  "CanonicalMIMEHeaderKey s =
     (if list_all validHeaderFieldByte s then canonical_bytes True s else s)"

definition Header_Set :: "Header \<Rightarrow> string \<Rightarrow> string \<Rightarrow> Header" where
  "Header_Set h key v = h(CanonicalMIMEHeaderKey key \<mapsto> [v])"

definition Header_Get :: "Header \<Rightarrow> string \<Rightarrow> string" where
  "Header_Get h key =
     (case h (CanonicalMIMEHeaderKey key) of
        None \<Rightarrow> ''''
      | Some [] \<Rightarrow> ''''
      | Some (v # _) \<Rightarrow> v)"

text \<open>Two names that differ only in the case of their letters.\<close>

definition fold_byte :: "char \<Rightarrow> char" where
  "fold_byte c = (if is_upper_byte c then to_lower_byte c else c)"

definition same_but_case :: "string \<Rightarrow> string \<Rightarrow> bool" where
  "same_but_case a b = (map fold_byte a = map fold_byte b)"

section \<open>The host's response\<close>

text \<open>
  The object \<open>fetch\<close> resolves to: its \<open>statusText\<close> and \<open>status\<close>, the entries its
  \<open>headers.forEach\<close> enumerates (name and value, in the order of enumeration), and
  the promise its \<open>blob()\<close> returns. A blob has its \<open>size\<close> and the reader that
  \<open>stream().getReader()\<close> returns.
\<close>

record js_blob =
  blob_size :: int
  blob_stream :: stream_reader

record js_response =
  resp_statusText :: string
  resp_status :: int
  resp_headers :: "(string \<times> string) list"
  resp_blob :: "js_blob promise"

datatype ReadCloser = NopCloser Reader

record http_Response =
  Status :: string
  StatusCode :: int
  Header :: Header
  Body :: ReadCloser
  ContentLength :: int

text \<open>
  Modelled from the spec: the type \<open>Response\<close> is declared in a file of the
  repository that is not among the sources. \<open>Run\<close> fills its field \<open>RawResponse\<close>
  with the \<open>*http.Response\<close> of \<open>fetch2http\<close>.
\<close>

record Response =
  RawResponse :: http_Response

text \<open>
  \<open>goHeaders\<close> (lines 118-127): the host calls the callback once per entry, with
  the value as \<open>args[0]\<close> and the name as \<open>args[1]\<close>.
\<close>

definition goHeaders_callback :: "Header \<Rightarrow> string \<times> string \<Rightarrow> Header" where
  "goHeaders_callback h entry = (case entry of (name, v) \<Rightarrow> Header_Set h name v)"

definition goHeaders :: "js_response \<Rightarrow> Header" where
  "goHeaders fetch = foldl goHeaders_callback Map.empty (resp_headers fetch)"

text \<open>\<open>Read\<close> on the body of a response: \<open>NopCloser\<close> passes it to its reader.\<close>

definition ReadCloser_Read :: "ReadCloser \<Rightarrow> bytes \<Rightarrow> read_return result option" where
  "ReadCloser_Read rc p = (case rc of NopCloser r \<Rightarrow> Read r p)"

text \<open>
  \<open>fetch2http\<close> (lines 146-171), with the calls it makes into the host. \<open>None\<close>:
  the blob promise never settles.
\<close>

definition fetch2http ::
  "js_response jsvalue \<Rightarrow> (host_call list \<times> http_Response) result option" where
  "fetch2http fetch =
     (case fetch of
        Object f \<Rightarrow>
          (case promiseHack (resp_blob f) of
             None \<Rightarrow> None
           | Some (Inl pa) \<Rightarrow> Some (Inl pa)
           | Some (Inr (blob, err)) \<Rightarrow>
               (case err of
                  Some e \<Rightarrow> Some (Inl (PanicError e))
                | None \<Rightarrow>
                    (case blob of
                       Object b \<Rightarrow>
                         (let Size = blob_size b;
                              (calls, Reader) =
                                (if Size = 0 then ([], NopCloser (NewReader ''''))
                                 else ([Call_stream, Call_getReader],
                                       NopCloser (blobReader (blob_stream b))))
                          in Some (Inr ([Call_blob] @ calls @ [Call_forEach],
                                \<lparr>Status = resp_statusText f,
                                 StatusCode = resp_status f,
                                 Header = goHeaders f,
                                 Body = Reader,
                                 ContentLength = Size\<rparr>)))
                     | _ \<Rightarrow> Some (Inl ValueError))))
      | _ \<Rightarrow> Some (Inl ValueError))"

section \<open>Run\<close>

text \<open>
  Modelled from the spec: the type \<open>Request\<close> is declared in a file of the
  repository that is not among the sources. Its fields are the ones \<open>Run\<close> reads:
  the target URL, the method, the headers, the optional body source
  (\<open>CurrentReader\<close>, an \<open>io.Reader\<close>: \<open>None\<close> is the nil interface), the optional
  per-call timeout (\<open>CurrentTimeout\<close>, a \<open>*time.Duration\<close>: \<open>None\<close> is absent) and the
  stored construction error (\<open>Error\<close>, a \<open>*error\<close>: \<open>None\<close> is the nil pointer).
\<close>

record Request =
  URL :: string
  Method :: string
  Headers :: "string \<rightharpoonup> string"
  CurrentReader :: "Reader option"
  CurrentTimeout :: "Duration option"
  Error :: "error option"

text \<open>
  \<open>fetch\<close> (lines 63-74): the call of the host's \<open>fetch\<close>, then \<open>promiseHack\<close> on the
  promise it returns. \<open>host\<close> is the host's \<open>fetch\<close>: the promise it returns for a
  URL and the arguments.
\<close>

definition fetch ::
  "(string \<Rightarrow> fetch_args \<Rightarrow> js_response promise) \<Rightarrow> string \<Rightarrow> fetch_args \<Rightarrow>
     host_call list \<times> (js_response jsvalue \<times> error) result option" where
  "fetch host URL' Args = ([Call_Object, Call_fetch URL' Args], promiseHack (host URL' Args))"

text \<open>
  \<open>Run\<close> (lines 174-211). The process-wide default timeout \<open>DefaultTimeout\<close>
  is a variable declared in a file of the repository that is not among the
  sources; it is the first parameter here. \<open>host\<close> is the
  host's \<open>fetch\<close>. The result is the list of the calls into the host that \<open>Run\<close>
  makes up to and with the call of \<open>fetch\<close>, and what comes of waiting for the
  response: \<open>None\<close> when \<open>Run\<close> never returns, a panic, or the calls made after
  the wait and the pair \<open>Run\<close> returns. The local \<open>Reader\<close> of lines 189-192 is
  assigned and not read again: line 197 reads \<open>r.CurrentReader\<close>.
\<close>

definition Run ::
  "Duration \<Rightarrow> (string \<Rightarrow> fetch_args \<Rightarrow> js_response promise) \<Rightarrow> Request \<Rightarrow>
     host_call list \<times> (host_call list \<times> Response option \<times> error) result option" where
  "Run DefaultTimeout host r =
     (case Error r of
        Some e \<Rightarrow> ([], Some (Inr ([], None, e)))
      | None \<Rightarrow>
          (let (calls1, Signal) =
                 (case CurrentTimeout r of
                    None \<Rightarrow>
                      if DefaultTimeout \<noteq> 0 then createSignal (Milliseconds DefaultTimeout)
                      else ([], Undefined)
                  | Some t \<Rightarrow>
                      if t \<noteq> 0 then createSignal (Milliseconds t) else ([], Undefined));
               Reader = (case CurrentReader r of None \<Rightarrow> Some (NewReader '''') | Some x \<Rightarrow> Some x);
               (calls2, headers) = strmap2obj (Headers r);
               (calls3, body) = createReadableStream (CurrentReader r);
               FetchArgs = [(''signal'', V_signal Signal),
                            (''method'', V_string (Method r)),
                            (''headers'', headers),
                            (''body'', V_stream body)];
               FetchArgs' = (if Method r = ''GET'' \<or> Method r = ''HEAD''
                             then delete_key ''body'' FetchArgs else FetchArgs);
               (calls4, waited) = fetch host (URL r) FetchArgs'
           in (calls1 @ calls2 @ calls3 @ calls4,
               case waited of
                 None \<Rightarrow> None
               | Some (Inl pa) \<Rightarrow> Some (Inl pa)
               | Some (Inr (res, err)) \<Rightarrow>
                   (case err of
                      Some e \<Rightarrow> Some (Inr ([], None, Some e))
                    | None \<Rightarrow>
                        (case fetch2http res of
                           None \<Rightarrow> None
                         | Some (Inl pa) \<Rightarrow> Some (Inl pa)
                         | Some (Inr (calls5, raw)) \<Rightarrow>
                             Some (Inr (calls5, Some \<lparr>RawResponse = raw\<rparr>, None)))))))"

section \<open>What a call into the host does\<close>

text \<open>
  Predicates on the calls \<open>Run\<close> makes: the construction of a body stream, a
  \<open>fetch\<close> whose arguments hold a \<open>body\<close> entry or a stream, the arming of a
  cancellation (a new \<open>AbortController\<close> or a timer), and a \<open>fetch\<close> whose arguments
  hold a signal object.
\<close>

definition constructs_stream :: "host_call \<Rightarrow> bool" where
  "constructs_stream c = (case c of New_ReadableStream r \<Rightarrow> True | _ \<Rightarrow> False)"

definition carries_stream :: "fetch_arg \<Rightarrow> bool" where
  "carries_stream v = (case v of V_stream s \<Rightarrow> True | _ \<Rightarrow> False)"

definition sends_body :: "host_call \<Rightarrow> bool" where
  "sends_body c =
     (case c of
        Call_fetch u args \<Rightarrow> list_ex (\<lambda>kv. fst kv = ''body'' \<or> carries_stream (snd kv)) args
      | _ \<Rightarrow> False)"

definition arms_signal :: "host_call \<Rightarrow> bool" where
  "arms_signal c =
     (case c of New_AbortController \<Rightarrow> True | Call_setTimeout ms \<Rightarrow> True | _ \<Rightarrow> False)"

definition carries_signal :: "fetch_arg \<Rightarrow> bool" where
  "carries_signal v = (case v of V_signal (Object s) \<Rightarrow> True | _ \<Rightarrow> False)"

definition sends_signal :: "host_call \<Rightarrow> bool" where
  "sends_signal c =
     (case c of
        Call_fetch u args \<Rightarrow> list_ex (\<lambda>kv. carries_signal (snd kv)) args
      | _ \<Rightarrow> False)"

section \<open>Concrete inputs\<close>

text \<open>A host whose \<open>fetch\<close> never settles, and one that rejects with a \<open>TypeError\<close>.\<close>

definition pending_host :: "string \<Rightarrow> fetch_args \<Rightarrow> js_response promise" where
  "pending_host u a = Pending"

definition failed_fetch :: jsobject where
  "failed_fetch =
     JsObject [(''message'', JString ''Failed to fetch'')] ''TypeError: Failed to fetch''"

definition plain_object :: jsobject where
  "plain_object = JsObject [] ''[object Object]''"

definition get_with_body :: Request where
  "get_with_body =
     \<lparr>URL = ''https://example.org/'', Method = ''GET'', Headers = Map.empty,
      CurrentReader = Some (NewReader ''payload''), CurrentTimeout = None, Error = None\<rparr>"

definition post_without_body :: Request where
  "post_without_body =
     \<lparr>URL = ''https://example.org/'', Method = ''POST'', Headers = Map.empty,
      CurrentReader = None, CurrentTimeout = None, Error = None\<rparr>"

definition post_zero_timeout :: Request where
  "post_zero_timeout =
     \<lparr>URL = ''https://example.org/'', Method = ''POST'', Headers = Map.empty,
      CurrentReader = Some (NewReader ''payload''), CurrentTimeout = Some 0, Error = None\<rparr>"

definition broken_request :: Request where
  "broken_request =
     \<lparr>URL = ''https://example.org/'', Method = ''POST'', Headers = Map.empty,
      CurrentReader = Some (NewReader ''payload''), CurrentTimeout = None,
      Error = Some (Some (errorString ''invalid URL''))\<rparr>"

text \<open>The incoming stream that delivers \<open>"ab"\<close>, then \<open>"cde"\<close>, then done.\<close>

definition ab_cde_stream :: stream_reader where
  "ab_cde_stream =
     [Settles 0 (Fulfilled [ReadResult False ''ab'']),
      Settles 1 (Fulfilled [ReadResult False ''cde'']),
      Settles 0 (Fulfilled [ReadResult True []])]"

text \<open>A response whose blob has size zero.\<close>

definition empty_response :: js_response where
  "empty_response =
     \<lparr>resp_statusText = ''No Content'', resp_status = 204, resp_headers = [],
      resp_blob = Settles 2 (Fulfilled [\<lparr>blob_size = 0, blob_stream = []\<rparr>])\<rparr>"

text \<open>A response whose headers hold one name in two spellings.\<close>

definition mixed_case_response :: js_response where
  "mixed_case_response =
     \<lparr>resp_statusText = ''OK'', resp_status = 200,
      resp_headers = [(''content-type'', ''text/plain''), (''Content-Type'', ''text/html'')],
      resp_blob = Pending\<rparr>"

text \<open>A response whose two header names hold a space and differ in case only.\<close>

definition space_names_response :: js_response where
  "space_names_response =
     \<lparr>resp_statusText = ''OK'', resp_status = 200,
      resp_headers = [(''foo bar'', ''1''), (''Foo Bar'', ''2'')],
      resp_blob = Pending\<rparr>"

text \<open>A host stream that delivers the given chunks, each after some sleeps, then is closed.\<close>

definition delivering :: "(nat \<times> bytes) list \<Rightarrow> stream_reader" where
  "delivering cs = map (\<lambda>kc. Settles (fst kc) (Fulfilled [ReadResult False (snd kc)])) cs"

text \<open>A byte sequence cut into chunks of 100 bytes, the last one shorter.\<close>

fun chunks100 :: "bytes \<Rightarrow> bytes list" where
  "chunks100 xs = (if xs = [] then [] else take 100 xs # chunks100 (drop 100 xs))"

declare chunks100.simps [simp del]

section \<open>promiseHack returns once the promise settles\<close>

lemma then_callback_done:
  "then_callback args c = Inr c' \<Longrightarrow> ph_done c'"
  by (auto simp: then_callback_def split: list.splits)

lemma catch_callback_done:
  "catch_callback args c = Inr c' \<Longrightarrow> ph_done c' \<and> ph_res c' = ph_res c"
  by (auto simp: catch_callback_def Let_def split: list.splits sum.splits)

lemma poll_Fulfilled:
  assumes "i \<le> k" and "\<not> ph_done c"
  shows "poll (Settles k (Fulfilled vs)) i c =
           (case then_callback (map Object vs) c of
              Inl e \<Rightarrow> Some (Inl e)
            | Inr c' \<Rightarrow> Some (Inr (ph_res c', ph_err c')))"
  using assms
proof (induction "k - i" arbitrary: i)
  case 0
  then have "i = k" by simp
  then show ?case
    by (subst poll.simps) (auto simp: host_turn_def dest: then_callback_done split: sum.splits)
next
  case (Suc n)
  then have "i \<noteq> k" and "Suc i \<le> k" and "n = k - Suc i" by simp_all
  with Suc show ?case
    by (subst poll.simps) (simp add: host_turn_def)
qed

lemma poll_Rejected:
  assumes "i \<le> k" and "\<not> ph_done c"
  shows "poll (Settles k (Rejected gap args)) i c =
           (case catch_callback args c of
              Inl e \<Rightarrow> Some (Inl e)
            | Inr c' \<Rightarrow> Some (Inr (if gap = 0 then Null else ph_res c, ph_err c')))"
  using assms
proof (induction "k - i" arbitrary: i)
  case 0
  then have "i = k" by simp
  then show ?case
    by (subst poll.simps)
      (auto simp: host_turn_def then_callback_def dest: catch_callback_done split: sum.splits)
next
  case (Suc n)
  then have "i \<noteq> k" and "i \<noteq> k + gap" and "Suc i \<le> k" and "n = k - Suc i" by simp_all
  with Suc show ?case
    by (subst poll.simps) (simp add: host_turn_def)
qed

lemma promiseHack_Fulfilled:
  "promiseHack (Settles k (Fulfilled (v # vs))) = Some (Inr (Object v, None))"
  by (simp add: promiseHack_def poll_Fulfilled then_callback_def)

lemma promiseHack_Fulfilled_Nil:
  "promiseHack (Settles k (Fulfilled [])) = Some (Inl IndexOutOfRange)"
  by (simp add: promiseHack_def poll_Fulfilled then_callback_def)

lemma catch_callback_object:
  "object_payload args \<Longrightarrow>
   catch_callback args c =
     Inr (c\<lparr>ph_done := True, ph_err := Some (errorString (rejection_message args))\<rparr>)"
  by (auto simp: object_payload_def catch_callback_def rejection_message_def Get_def message_of_def
      IsUndefined_def Let_def split: list.splits jsvalue.splits option.splits)

lemma catch_callback_panic:
  "\<not> object_payload args \<Longrightarrow> catch_callback args c = Inl ValueError"
  by (auto simp: object_payload_def catch_callback_def Get_def Let_def
      split: list.splits jsvalue.splits)

lemma promiseHack_Rejected:
  "promiseHack (Settles k (Rejected gap args)) =
     (if object_payload args
      then Some (Inr (if gap = 0 then Null else Undefined,
                      Some (errorString (rejection_message args))))
      else Some (Inl ValueError))"
  by (simp add: promiseHack_def poll_Rejected catch_callback_object catch_callback_panic)

text \<open>A promise that never settles keeps \<open>promiseHack\<close> in its loop.\<close>

lemma poll_Pending_done:
  assumes "poll p i c = Some y"
  shows "p = Pending \<longrightarrow> ph_done c"
  by (rule poll.raw_induct [OF _ assms, where P = "\<lambda>p i c y. p = Pending \<longrightarrow> ph_done c"])
    (auto simp: host_turn_def split: sum.splits if_splits)

lemma promiseHack_Pending: "promiseHack Pending = None"
proof (cases "promiseHack (Pending :: 'a promise)")
  case None
  then show ?thesis .
next
  case (Some y)
  then show ?thesis
    unfolding promiseHack_def by (auto dest: poll_Pending_done)
qed

section \<open>The calls of Run\<close>

lemma Run_calls:
  "Error r = None \<Longrightarrow>
   fst (Run D host r) =
     (case CurrentTimeout r of
        None \<Rightarrow> if D \<noteq> 0 then [New_AbortController, Call_setTimeout (Milliseconds D)] else []
      | Some t \<Rightarrow> if t \<noteq> 0 then [New_AbortController, Call_setTimeout (Milliseconds t)] else [])
     @ [Call_Object, Call_Object, New_ReadableStream (CurrentReader r), Call_Object,
        Call_fetch (URL r)
          ([(''signal'', V_signal (case CurrentTimeout r of
                None \<Rightarrow> if D \<noteq> 0 then Object (AbortSignal (Milliseconds D)) else Undefined
              | Some t \<Rightarrow> if t \<noteq> 0 then Object (AbortSignal (Milliseconds t)) else Undefined)),
            (''method'', V_string (Method r)),
            (''headers'', V_headers (Headers r))]
           @ (if Method r = ''GET'' \<or> Method r = ''HEAD'' then []
              else [(''body'', V_stream (ReadableStream (CurrentReader r)))]))]"
  by (simp add: Run_def createSignal_def strmap2obj_def createReadableStream_def fetch_def
      delete_key_def Let_def split: option.splits)

lemma Run_Error: "Error r = Some e \<Longrightarrow> Run D host r = ([], Some (Inr ([], None, e)))"
  by (simp add: Run_def)

lemma Milliseconds_5s: "Milliseconds 5000000000 = 5000"
  by (simp add: Milliseconds_def signed_divide_int_def)

lemma Run_waits:
  "Error r = None \<Longrightarrow>
   snd (Run D host r) =
     (case promiseHack (host (URL r)
              ([(''signal'', V_signal (case CurrentTimeout r of
                    None \<Rightarrow> if D \<noteq> 0 then Object (AbortSignal (Milliseconds D)) else Undefined
                  | Some t \<Rightarrow> if t \<noteq> 0 then Object (AbortSignal (Milliseconds t)) else Undefined)),
                (''method'', V_string (Method r)),
                (''headers'', V_headers (Headers r))]
               @ (if Method r = ''GET'' \<or> Method r = ''HEAD'' then []
                  else [(''body'', V_stream (ReadableStream (CurrentReader r)))]))) of
        None \<Rightarrow> None
      | Some (Inl pa) \<Rightarrow> Some (Inl pa)
      | Some (Inr (res, err)) \<Rightarrow>
          (case err of
             Some e \<Rightarrow> Some (Inr ([], None, Some e))
           | None \<Rightarrow>
               (case fetch2http res of
                  None \<Rightarrow> None
                | Some (Inl pa) \<Rightarrow> Some (Inl pa)
                | Some (Inr (calls5, raw)) \<Rightarrow>
                    Some (Inr (calls5, Some \<lparr>RawResponse = raw\<rparr>, None)))))"
  by (simp add: Run_def createSignal_def strmap2obj_def createReadableStream_def fetch_def
      delete_key_def Let_def split: option.splits)

section \<open>Reads\<close>

lemma blobReader_Read_Fulfilled:
  "blobReader_Read (Settles k (Fulfilled (rr # vs)) # sr) p =
     (if rr_done rr then Some (Inr ((0, None, p), blobReader sr))
      else Some (Inr ((fst (copy_bytes p (rr_value rr)), None, snd (copy_bytes p (rr_value rr))),
                      blobReader sr)))"
  by (simp add: blobReader_Read_def call_read_def promiseHack_Fulfilled split: prod.splits)

lemma blobReader_Read_closed:
  "blobReader_Read [] p = Some (Inr ((0, None, p), blobReader []))"
  by (simp add: blobReader_Read_def call_read_def promiseHack_Fulfilled)

lemma pull_None: "pull None = Some (Inl NilDereference)"
  by (simp add: pull_def)

lemma host_pulls_None: "host_pulls None received = Some (Inl NilDereference)"
  by (subst host_pulls.simps) (simp add: pull_None)

lemma host_pulls_empty_reader: "host_pulls (Some (NewReader '''')) [] = Some (Inr [])"
  by (subst host_pulls.simps)
    (simp add: pull_def Read_def NewReader_def strings_Reader_Read_def)

lemma read_closed_stream:
  "read_with_buffers (blobReader []) lens = Some (Inr (map (\<lambda>len. ('''', None)) lens))"
  by (induction lens) (simp_all add: Read_def blobReader_Read_closed)

lemma Read_delivering:
  assumes "length c \<le> length p"
  shows "Read (blobReader (delivering ((k, c) # cs))) p =
           Some (Inr ((length c, None, c @ drop (length c) p), blobReader (delivering cs)))"
  using assms
  by (simp add: Read_def delivering_def blobReader_Read_Fulfilled copy_bytes_def min_def Let_def)

section \<open>The chunks of a strings.Reader\<close>

lemma concat_chunks100: "concat (chunks100 xs) = xs"
proof (induction xs rule: chunks100.induct)
  case (1 xs)
  then show ?case
    by (subst chunks100.simps) simp
qed

lemma pull_strings_Reader_end:
  "length s \<le> i \<Longrightarrow>
   pull (Some (strings_Reader s i)) = Some (Inr (Closed, Some (strings_Reader s i)))"
  by (simp add: pull_def Read_def strings_Reader_Read_def)

lemma pull_strings_Reader_data:
  assumes "i < length s"
  shows "pull (Some (strings_Reader s i)) =
           Some (Inr (Enqueued (take 100 (drop i s)),
                      Some (strings_Reader s (i + min 100 (length s - i)))))"
proof -
  let ?n = "min 100 (length s - i)"
  have n: "?n \<le> 100" "?n \<le> length s - i" by simp_all
  have "take ?n (take ?n (drop i s) @ drop ?n (replicate 100 (CHR 0x00))) = take 100 (drop i s)"
    by (simp add: min_def)
  then show ?thesis
    using assms
    by (simp add: pull_def Read_def strings_Reader_Read_def copy_bytes_def Let_def min_def)
qed

lemma host_pulls_strings_Reader:
  "host_pulls (Some (strings_Reader s i)) acc = Some (Inr (acc @ chunks100 (drop i s)))"
proof (induction "length s - i" arbitrary: i acc rule: less_induct)
  case less
  show ?case
  proof (cases "i < length s")
    case False
    then show ?thesis
      by (subst host_pulls.simps) (simp add: pull_strings_Reader_end chunks100.simps)
  next
    case True
    let ?n = "min 100 (length s - i)"
    have smaller: "length s - (i + ?n) < length s - i"
      using True by (auto simp: min_def)
    have rest: "drop (i + ?n) s = drop 100 (drop i s)"
      by (simp add: min_def add.commute)
    have "host_pulls (Some (strings_Reader s i)) acc
          = host_pulls (Some (strings_Reader s (i + ?n))) (acc @ [take 100 (drop i s)])"
      by (subst host_pulls.simps) (simp add: pull_strings_Reader_data [OF True])
    also have "\<dots> = Some (Inr ((acc @ [take 100 (drop i s)]) @ chunks100 (drop (i + ?n) s)))"
      by (rule less [OF smaller])
    also have "\<dots> = Some (Inr (acc @ chunks100 (drop i s)))"
      using True by (subst (2) chunks100.simps) (simp add: rest)
    finally show ?thesis .
  qed
qed

section \<open>Canonical header keys\<close>

lemma of_char_to_lower:
  "is_upper_byte c \<Longrightarrow> (of_char (to_lower_byte c) :: nat) = of_char c + 32"
  by (simp add: is_upper_byte_def to_lower_byte_def)

lemma of_char_to_upper:
  "is_lower_byte c \<Longrightarrow> (of_char (to_upper_byte c) :: nat) = of_char c - 32"
proof -
  have "(of_char c :: nat) - 32 < 256"
    using nat_of_char_less_256 [of c] by arith
  then show ?thesis
    by (simp add: to_upper_byte_def)
qed

lemma fold_byte_cases:
  assumes "fold_byte c = fold_byte d"
  shows "c = d \<or> (is_upper_byte c \<and> \<not> is_upper_byte d \<and> d = to_lower_byte c)
       \<or> (is_upper_byte d \<and> \<not> is_upper_byte c \<and> c = to_lower_byte d)"
proof (cases "is_upper_byte c"; cases "is_upper_byte d")
  assume c: "is_upper_byte c" and d: "is_upper_byte d"
  with assms have "to_lower_byte c = to_lower_byte d"
    by (simp add: fold_byte_def)
  then have "(of_char (to_lower_byte c) :: nat) = of_char (to_lower_byte d)"
    by simp
  then have "(of_char c :: nat) = of_char d"
    by (simp add: of_char_to_lower c d)
  then show ?thesis by simp
qed (use assms in \<open>auto simp: fold_byte_def\<close>)

lemma to_upper_to_lower:
  assumes "is_upper_byte c"
  shows "is_lower_byte (to_lower_byte c)" and "to_upper_byte (to_lower_byte c) = c"
    and "\<not> is_upper_byte (to_lower_byte c)" and "\<not> is_lower_byte c"
proof -
  have n: "(of_char (to_lower_byte c) :: nat) = of_char c + 32"
    by (rule of_char_to_lower [OF assms])
  show low: "is_lower_byte (to_lower_byte c)"
    using assms by (simp add: is_lower_byte_def n is_upper_byte_def)
  have "(of_char (to_upper_byte (to_lower_byte c)) :: nat) = of_char c"
    by (simp add: of_char_to_upper [OF low] n)
  then show "to_upper_byte (to_lower_byte c) = c"
    by simp
  show "\<not> is_upper_byte (to_lower_byte c)"
    using assms by (simp add: is_upper_byte_def n)
  show "\<not> is_lower_byte c"
    using assms by (simp add: is_upper_byte_def is_lower_byte_def)
qed

lemma canonical_step_fold:
  assumes "fold_byte c = fold_byte d"
  shows "(if u \<and> is_lower_byte c then to_upper_byte c
          else if \<not> u \<and> is_upper_byte c then to_lower_byte c else c)
       = (if u \<and> is_lower_byte d then to_upper_byte d
          else if \<not> u \<and> is_upper_byte d then to_lower_byte d else d)"
  using fold_byte_cases [OF assms]
  by (auto simp: to_upper_to_lower)

lemma valid_to_lower:
  "is_upper_byte c \<Longrightarrow> validHeaderFieldByte c \<and> validHeaderFieldByte (to_lower_byte c)"
  by (simp add: validHeaderFieldByte_def to_upper_to_lower)

lemma valid_fold:
  assumes "fold_byte c = fold_byte d"
  shows "validHeaderFieldByte c = validHeaderFieldByte d"
  using fold_byte_cases [OF assms] by (auto simp: valid_to_lower)

lemma canonical_bytes_fold:
  "map fold_byte a = map fold_byte b \<Longrightarrow> canonical_bytes u a = canonical_bytes u b"
proof (induction a arbitrary: b u)
  case Nil
  then show ?case by simp
next
  case (Cons c cs)
  then obtain d ds where b: "b = d # ds" and cd: "fold_byte c = fold_byte d"
    and rest: "map fold_byte cs = map fold_byte ds"
    by (cases b) auto
  show ?case
    unfolding b using canonical_step_fold [OF cd, of u] Cons.IH [OF rest]
    by (simp add: Let_def)
qed

lemma list_all_valid_fold:
  "map fold_byte a = map fold_byte b \<Longrightarrow>
   list_all validHeaderFieldByte a = list_all validHeaderFieldByte b"
proof (induction a arbitrary: b)
  case Nil
  then show ?case by simp
next
  case (Cons c cs)
  then obtain d ds where b: "b = d # ds" and cd: "fold_byte c = fold_byte d"
    and rest: "map fold_byte cs = map fold_byte ds"
    by (cases b) auto
  show ?case
    unfolding b using valid_fold [OF cd] Cons.IH [OF rest] by simp
qed

lemma Canonical_same_but_case:
  "same_but_case a b \<Longrightarrow> list_all validHeaderFieldByte a \<Longrightarrow>
   CanonicalMIMEHeaderKey a = CanonicalMIMEHeaderKey b"
  unfolding same_but_case_def CanonicalMIMEHeaderKey_def
  using canonical_bytes_fold [of a b True] list_all_valid_fold [of a b] by simp

lemma foldl_goHeaders_callback:
  "foldl goHeaders_callback h hs k =
     (case find (\<lambda>e. CanonicalMIMEHeaderKey (fst e) = k) (rev hs) of
        None \<Rightarrow> h k
      | Some e \<Rightarrow> Some [snd e])"
proof (induction hs rule: rev_induct)
  case Nil
  then show ?case by simp
next
  case (snoc e es)
  then show ?case
    by (cases e) (simp add: goHeaders_callback_def Header_Set_def)
qed

lemma goHeaders_lookup:
  "goHeaders f k =
     map_option (\<lambda>e. [snd e]) (find (\<lambda>e. CanonicalMIMEHeaderKey (fst e) = k) (rev (resp_headers f)))"
  by (simp add: goHeaders_def foldl_goHeaders_callback split: option.splits)

lemma dom_goHeaders:
  "dom (goHeaders f) = CanonicalMIMEHeaderKey ` fst ` set (resp_headers f)"
proof -
  have "k \<in> dom (goHeaders f) \<longleftrightarrow> k \<in> CanonicalMIMEHeaderKey ` fst ` set (resp_headers f)" for k
    by (force simp: goHeaders_lookup dom_def find_None_iff image_iff)
  then show ?thesis by blast
qed

section \<open>The claims\<close>

text \<open>
  C1, as amended. For a Request whose method is GET or HEAD, no call of the host's
  \<open>fetch\<close> made by \<open>Run\<close> holds a \<open>body\<close> entry or a stream among its arguments,
  whatever body reader the Request carries. The stream itself is constructed
  before the call (over the Request's reader) whenever the Request has no stored
  error; line 200 removes it from the arguments.
\<close>

theorem Run_GET_HEAD_sends_no_body:
  assumes "Method r = ''GET'' \<or> Method r = ''HEAD''"
  shows "\<not> list_ex sends_body (fst (Run D host r))
       \<and> (Error r = None \<longrightarrow> New_ReadableStream (CurrentReader r) \<in> set (fst (Run D host r)))"
proof (cases "Error r")
  case None
  with assms show ?thesis
    by (auto simp: Run_calls sends_body_def carries_stream_def split: option.splits)
next
  case (Some e)
  then show ?thesis by (simp add: Run_Error)
qed

text \<open>The amended C1 at a GET Request that carries a body reader.\<close>

theorem Run_GET_HEAD_sends_no_body_witness:
  "(Method get_with_body = ''GET'' \<or> Method get_with_body = ''HEAD'')
   \<and> \<not> list_ex sends_body (fst (Run 0 pending_host get_with_body))
   \<and> Error get_with_body = None
   \<and> New_ReadableStream (CurrentReader get_with_body)
        \<in> set (fst (Run 0 pending_host get_with_body))"
  using Run_GET_HEAD_sends_no_body [of get_with_body 0 pending_host]
  by (simp add: get_with_body_def)

text \<open>
  C1 as stated fails: for a GET Request, \<open>Run\<close> does construct a body stream
  (line 197 runs before the method is looked at).
\<close>

theorem Run_GET_constructs_stream:
  "Method get_with_body = ''GET''
   \<and> list_ex constructs_stream (fst (Run 0 pending_host get_with_body))"
  by (simp add: Run_calls get_with_body_def constructs_stream_def)

text \<open>
  C2, at the input where the code departs from it. The incoming stream delivers
  \<open>"ab"\<close>, \<open>"cde"\<close>, done; the caller reads with buffers of two bytes. The second
  read returns \<open>"cd"\<close> and the byte \<open>"e"\<close> is never delivered: each \<open>Read\<close> pulls a
  new chunk from the host and copies only what fits. The third read returns
  \<open>0, nil\<close>, not \<open>io.EOF\<close>.
\<close>

theorem blobReader_Read_small_buffers:
  "read_with_buffers (blobReader ab_cde_stream) [2, 2, 2] =
     Some (Inr [(''ab'', None), (''cd'', None), ('''', None)])"
  by (simp add: ab_cde_stream_def Read_def blobReader_Read_Fulfilled copy_bytes_def)

text \<open>
  C3. For a Request with an explicit timeout of zero, \<open>Run\<close> creates no
  \<open>AbortController\<close>, starts no timer and passes no signal object to \<open>fetch\<close>,
  whatever the process-wide default is. With any explicit timeout the default
  has no influence on \<open>Run\<close>; with no explicit timeout a non-zero default is the
  delay of the timer.
\<close>

theorem Run_zero_timeout:
  "(CurrentTimeout r = Some 0 \<longrightarrow>
      \<not> list_ex arms_signal (fst (Run D host r)) \<and> \<not> list_ex sends_signal (fst (Run D host r)))
   \<and> (CurrentTimeout r \<noteq> None \<longrightarrow> Run D host r = Run D' host r)
   \<and> (CurrentTimeout r = None \<and> Error r = None \<and> D \<noteq> 0 \<longrightarrow>
        Call_setTimeout (Milliseconds D) \<in> set (fst (Run D host r)))"
proof (cases "Error r")
  case None
  have "CurrentTimeout r \<noteq> None \<longrightarrow> Run D host r = Run D' host r"
    using None by (cases "CurrentTimeout r") (simp_all add: Run_def)
  moreover have "CurrentTimeout r = Some 0 \<longrightarrow>
      \<not> list_ex arms_signal (fst (Run D host r)) \<and> \<not> list_ex sends_signal (fst (Run D host r))"
    using None
    by (auto simp: Run_calls arms_signal_def sends_signal_def carries_signal_def)
  moreover have "CurrentTimeout r = None \<and> D \<noteq> 0 \<longrightarrow>
      Call_setTimeout (Milliseconds D) \<in> set (fst (Run D host r))"
    using None by (auto simp: Run_calls)
  ultimately show ?thesis by blast
next
  case (Some e)
  then show ?thesis by (simp add: Run_Error)
qed

text \<open>
  C3 at a Request with the explicit timeout zero under a default of five seconds,
  and at a Request with no explicit timeout under the same default.
\<close>

theorem Run_zero_timeout_witness:
  "CurrentTimeout post_zero_timeout = Some 0
   \<and> \<not> list_ex arms_signal (fst (Run 5000000000 pending_host post_zero_timeout))
   \<and> \<not> list_ex sends_signal (fst (Run 5000000000 pending_host post_zero_timeout))
   \<and> Run 5000000000 pending_host post_zero_timeout = Run 0 pending_host post_zero_timeout
   \<and> CurrentTimeout get_with_body = None \<and> Error get_with_body = None
   \<and> Call_setTimeout 5000 \<in> set (fst (Run 5000000000 pending_host get_with_body))"
proof -
  have explicit: "CurrentTimeout post_zero_timeout = Some 0"
    by (simp add: post_zero_timeout_def)
  have absent: "CurrentTimeout get_with_body = None \<and> Error get_with_body = None
      \<and> (5000000000 :: Duration) \<noteq> 0"
    by (simp add: get_with_body_def)
  show ?thesis
    using Run_zero_timeout [of post_zero_timeout 5000000000 pending_host 0]
      Run_zero_timeout [of get_with_body 5000000000 pending_host 0] explicit absent
    unfolding Milliseconds_5s by blast
qed

text \<open>
  C4, at the inputs where the code departs from it. A deferred value rejected
  with no payload (\<open>Promise.reject()\<close>: the host passes undefined as \<open>args[0]\<close>),
  and one rejected with the string \<open>boom\<close>, a payload with no \<open>message\<close>: the
  \<open>Get\<close> of line 30 panics, so \<open>promiseHack\<close> returns no error at all, neither the
  empty one nor the string coercion \<open>boom\<close>.
\<close>

theorem promiseHack_rejected_without_object:
  "promiseHack (Settles k (Rejected gap [Undefined]) :: 'a promise) = Some (Inl ValueError)
   \<and> promiseHack (Settles k (Rejected gap [JString ''boom'']) :: 'a promise)
       = Some (Inl ValueError)"
  by (simp add: promiseHack_Rejected object_payload_def)

text \<open>
  C5. When the blob of a host response has size zero, \<open>fetch2http\<close> returns a
  response after the calls \<open>blob()\<close> and \<open>headers.forEach\<close> only: neither \<open>stream()\<close>
  nor \<open>getReader()\<close> is called. The body is a reader over the empty string, and a
  read of it returns \<open>0, io.EOF\<close>.
\<close>

theorem fetch2http_empty_blob:
  assumes "resp_blob f = Settles k (Fulfilled [b])" and "blob_size b = 0"
  shows "fetch2http (Object f) =
           Some (Inr ([Call_blob, Call_forEach],
             \<lparr>Status = resp_statusText f, StatusCode = resp_status f, Header = goHeaders f,
              Body = NopCloser (NewReader ''''), ContentLength = 0\<rparr>))
         \<and> ReadCloser_Read (NopCloser (NewReader '''')) p
             = Some (Inr ((0, Some EOF, p), NewReader ''''))"
  using assms
  by (simp add: fetch2http_def promiseHack_Fulfilled ReadCloser_Read_def Read_def NewReader_def
      strings_Reader_Read_def)

text \<open>C5 at a response with status 204 and an empty blob, read with a buffer of four bytes.\<close>

theorem fetch2http_empty_blob_witness:
  "resp_blob empty_response = Settles 2 (Fulfilled [\<lparr>blob_size = 0, blob_stream = []\<rparr>])
   \<and> blob_size \<lparr>blob_size = 0, blob_stream = []\<rparr> = 0
   \<and> fetch2http (Object empty_response) =
        Some (Inr ([Call_blob, Call_forEach],
          \<lparr>Status = ''No Content'', StatusCode = 204, Header = Map.empty,
           Body = NopCloser (NewReader ''''), ContentLength = 0\<rparr>))
   \<and> ReadCloser_Read (NopCloser (NewReader '''')) ''----''
        = Some (Inr ((0, Some EOF, ''----''), NewReader ''''))"
  using fetch2http_empty_blob [of empty_response 2 "\<lparr>blob_size = 0, blob_stream = []\<rparr>" "''----''"]
  by (simp add: empty_response_def goHeaders_def)

text \<open>
  C6, at the input where the code departs from it. A reader whose first read
  returns the three bytes \<open>"abc"\<close> together with \<open>io.EOF\<close> (as the \<open>io.Reader\<close>
  contract allows): line 97 looks at the error before the bytes, closes the
  stream and enqueues nothing, so the host receives no chunk.
\<close>

theorem host_pulls_data_with_EOF:
  "host_pulls (Some (scripted_Reader [(''abc'', Some EOF)])) [] = Some (Inr [])"
  by (subst host_pulls.simps)
    (simp add: pull_def Read_def scripted_Reader_Read_def copy_bytes_def)

text \<open>
  C7, at the input where the code departs from it. For a POST Request with a nil
  body reader, the stream that \<open>Run\<close> passes to \<open>fetch\<close> is built over the nil
  reader, not over the empty reader of lines 190-192; the first pull of that
  stream panics, where a stream over the empty reader is closed at once.
\<close>

theorem Run_nil_reader:
  "fst (Run 0 pending_host post_without_body) =
     [Call_Object, Call_Object, New_ReadableStream None, Call_Object,
      Call_fetch ''https://example.org/''
        [(''signal'', V_signal Undefined), (''method'', V_string ''POST''),
         (''headers'', V_headers Map.empty), (''body'', V_stream (ReadableStream None))]]
   \<and> host_pulls None [] = Some (Inl NilDereference)
   \<and> host_pulls (Some (NewReader '''')) [] = Some (Inr [])"
  by (simp add: Run_calls post_without_body_def host_pulls_None host_pulls_empty_reader)

text \<open>
  C8. When the Request carries a stored error, \<open>Run\<close> returns a nil Response and
  that error, and makes no call into the host: none before the return and none
  after.
\<close>

theorem Run_stored_error:
  "Error r = Some e \<Longrightarrow> Run D host r = ([], Some (Inr ([], None, e)))"
  by (simp add: Run_def)

text \<open>C8 at a Request whose construction failed with \<open>invalid URL\<close>.\<close>

theorem Run_stored_error_witness:
  "Error broken_request = Some (Some (errorString ''invalid URL''))
   \<and> Run 5000000000 pending_host broken_request
       = ([], Some (Inr ([], None, Some (errorString ''invalid URL''))))"
  using Run_stored_error [of broken_request "Some (errorString ''invalid URL'')" 5000000000 pending_host]
  by (simp add: broken_request_def)

text \<open>
  C9, at the inputs where the code departs from it. A deferred value rejected
  with null or with a boolean: the rejection callback panics at line 30 before it
  records an error, so \<open>promiseHack\<close> returns no error to the caller.
\<close>

theorem promiseHack_rejection_panics:
  "promiseHack (Settles k (Rejected gap [Null]) :: 'a promise) = Some (Inl ValueError)
   \<and> promiseHack (Settles k (Rejected gap [Boolean False]) :: 'a promise)
       = Some (Inl ValueError)"
  by (simp add: promiseHack_Rejected object_payload_def)

text \<open>
  C10, as amended. The header mapping of \<open>goHeaders\<close> holds, under a key, the value
  of the last enumerated entry whose name has that key as its canonical form
  (\<open>http.Header.Set\<close>), its keys are the canonical forms of the host's header
  names, and \<open>Get\<close> returns that value, or the empty string when there is no such
  entry. A name with a byte that is not valid in a header field name (a space,
  for one) is its own canonical form. For a name that is a header token and a
  second name that differs from it only in the case of letters: both have one
  canonical form, so the two entries are one entry of the mapping, with the
  value of the one enumerated last, and \<open>Get\<close> returns that value under either
  name.
\<close>

theorem goHeaders_canonical_keys:
  "goHeaders f k =
     map_option (\<lambda>e. [snd e])
       (find (\<lambda>e. CanonicalMIMEHeaderKey (fst e) = k) (rev (resp_headers f)))
   \<and> dom (goHeaders f) = CanonicalMIMEHeaderKey ` fst ` set (resp_headers f)
   \<and> Header_Get (goHeaders f) n =
       (case find (\<lambda>e. CanonicalMIMEHeaderKey (fst e) = CanonicalMIMEHeaderKey n)
               (rev (resp_headers f)) of
          None \<Rightarrow> ''''
        | Some e \<Rightarrow> snd e)
   \<and> (\<not> list_all validHeaderFieldByte n \<longrightarrow> CanonicalMIMEHeaderKey n = n)
   \<and> (list_all validHeaderFieldByte n1 \<and> same_but_case n1 n2 \<longrightarrow>
        CanonicalMIMEHeaderKey n1 = CanonicalMIMEHeaderKey n2
        \<and> Header_Get h n1 = Header_Get h n2
        \<and> (resp_headers g = hs @ [(n1, v1)] @ hs' @ [(n2, v2)] \<longrightarrow>
             goHeaders g (CanonicalMIMEHeaderKey n1) = Some [v2]
             \<and> goHeaders g (CanonicalMIMEHeaderKey n2) = Some [v2]
             \<and> Header_Get (goHeaders g) n1 = v2
             \<and> Header_Get (goHeaders g) n2 = v2))"
proof -
  have lookup: "Header_Get (goHeaders f) n =
       (case find (\<lambda>e. CanonicalMIMEHeaderKey (fst e) = CanonicalMIMEHeaderKey n)
               (rev (resp_headers f)) of
          None \<Rightarrow> ''''
        | Some e \<Rightarrow> snd e)"
    by (simp add: Header_Get_def goHeaders_lookup split: option.splits)
  have invalid: "\<not> list_all validHeaderFieldByte n \<longrightarrow> CanonicalMIMEHeaderKey n = n"
    by (simp add: CanonicalMIMEHeaderKey_def)
  have "CanonicalMIMEHeaderKey n1 = CanonicalMIMEHeaderKey n2
        \<and> Header_Get h n1 = Header_Get h n2
        \<and> (resp_headers g = hs @ [(n1, v1)] @ hs' @ [(n2, v2)] \<longrightarrow>
             goHeaders g (CanonicalMIMEHeaderKey n1) = Some [v2]
             \<and> goHeaders g (CanonicalMIMEHeaderKey n2) = Some [v2]
             \<and> Header_Get (goHeaders g) n1 = v2
             \<and> Header_Get (goHeaders g) n2 = v2)"
    if "list_all validHeaderFieldByte n1" and "same_but_case n1 n2"
  proof -
    have key: "CanonicalMIMEHeaderKey n1 = CanonicalMIMEHeaderKey n2"
      using that by (rule Canonical_same_but_case [rotated])
    then show ?thesis
      by (simp add: Header_Get_def goHeaders_lookup)
  qed
  then show ?thesis
    using goHeaders_lookup [of f k] dom_goHeaders [of f] lookup invalid by blast
qed

text \<open>C10 at a response that enumerates \<open>content-type\<close> and then \<open>Content-Type\<close>.\<close>

theorem goHeaders_canonical_keys_witness:
  "list_all validHeaderFieldByte ''content-type''
   \<and> same_but_case ''content-type'' ''Content-Type''
   \<and> CanonicalMIMEHeaderKey ''content-type'' = ''Content-Type''
   \<and> resp_headers mixed_case_response
        = [] @ [(''content-type'', ''text/plain'')] @ [] @ [(''Content-Type'', ''text/html'')]
   \<and> goHeaders mixed_case_response ''Content-Type'' = Some [''text/html'']
   \<and> dom (goHeaders mixed_case_response) = {''Content-Type''}
   \<and> Header_Get (goHeaders mixed_case_response) ''content-type'' = ''text/html''
   \<and> Header_Get (goHeaders mixed_case_response) ''Content-Type'' = ''text/html''
   \<and> \<not> list_all validHeaderFieldByte ''foo bar''
   \<and> CanonicalMIMEHeaderKey ''foo bar'' = ''foo bar''"
proof -
  have valid: "list_all validHeaderFieldByte ''content-type''"
    by code_simp
  have same: "same_but_case ''content-type'' ''Content-Type''"
    by code_simp
  have lower: "CanonicalMIMEHeaderKey ''content-type'' = ''Content-Type''"
    by code_simp
  have invalid: "\<not> list_all validHeaderFieldByte ''foo bar''"
    by code_simp
  have entries: "resp_headers mixed_case_response
      = [] @ [(''content-type'', ''text/plain'')] @ [] @ [(''Content-Type'', ''text/html'')]"
    by (simp add: mixed_case_response_def)
  have names: "fst ` set (resp_headers mixed_case_response) = {''content-type'', ''Content-Type''}"
    by (auto simp: mixed_case_response_def)
  from goHeaders_canonical_keys [of mixed_case_response "''Content-Type''" "''foo bar''"
      "''content-type''" "''Content-Type''" "goHeaders mixed_case_response" mixed_case_response
      "[]" "''text/plain''" "[]" "''text/html''"] valid same entries invalid
  have "CanonicalMIMEHeaderKey ''content-type'' = CanonicalMIMEHeaderKey ''Content-Type''"
    and "goHeaders mixed_case_response (CanonicalMIMEHeaderKey ''content-type'') = Some [''text/html'']"
    and "dom (goHeaders mixed_case_response)
          = CanonicalMIMEHeaderKey ` fst ` set (resp_headers mixed_case_response)"
    and "Header_Get (goHeaders mixed_case_response) ''content-type'' = ''text/html''"
    and "Header_Get (goHeaders mixed_case_response) ''Content-Type'' = ''text/html''"
    and "CanonicalMIMEHeaderKey ''foo bar'' = ''foo bar''"
    by blast+
  with valid same lower entries names invalid show ?thesis
    by simp
qed

text \<open>
  C10 as stated fails: the names \<open>foo bar\<close> and \<open>Foo Bar\<close> differ only in the case
  of letters, and hold a space, so each is stored unmodified. The mapping has two
  entries, and a lookup under the first name returns the first value, not the
  one enumerated last.
\<close>

theorem goHeaders_space_names:
  "same_but_case ''foo bar'' ''Foo Bar''
   \<and> goHeaders space_names_response ''foo bar'' = Some [''1'']
   \<and> goHeaders space_names_response ''Foo Bar'' = Some [''2'']
   \<and> Header_Get (goHeaders space_names_response) ''foo bar'' = ''1''
   \<and> Header_Get (goHeaders space_names_response) ''Foo Bar'' = ''2''"
proof -
  have same: "same_but_case ''foo bar'' ''Foo Bar''"
    by code_simp
  have lower: "CanonicalMIMEHeaderKey ''foo bar'' = ''foo bar''"
    by code_simp
  have upper: "CanonicalMIMEHeaderKey ''Foo Bar'' = ''Foo Bar''"
    by code_simp
  show ?thesis
    using same
    by (simp add: goHeaders_lookup Header_Get_def space_names_response_def lower upper)
qed

section \<open>Further properties\<close>

text \<open>
  For a host that calls the function \<open>start\<close> returns, and each function such a
  call returns, until one returns undefined: the chunks it receives from a
  stream over a \<open>strings.Reader\<close> are the bytes of its string, in order, 100 at a
  time, and their concatenation is the string.
\<close>

theorem host_pulls_NewReader:
  "host_pulls (Some (NewReader s)) [] = Some (Inr (chunks100 s)) \<and> concat (chunks100 s) = s"
  by (simp add: NewReader_def host_pulls_strings_Reader concat_chunks100)

text \<open>
  When every buffer is at least as long as the chunk the host delivers to it,
  the reads of a \<open>blobReader\<close> return the chunks whole and in order, each with a
  nil error; every read after the last chunk returns \<open>0, nil\<close>.
\<close>

theorem blobReader_Read_fitting_buffers:
  assumes "list_all2 (\<lambda>len kc. length (snd kc) \<le> len) lens cs"
  shows "read_with_buffers (blobReader (delivering cs)) (lens @ later) =
           Some (Inr (map (\<lambda>kc. (snd kc, None)) cs @ map (\<lambda>len. ('''', None)) later))"
  using assms
proof (induction lens cs rule: list_all2_induct)
  case Nil
  then show ?case
    by (simp add: delivering_def read_closed_stream)
next
  case (Cons len lens kc cs)
  obtain k c where kc: "kc = (k, c)" by (cases kc)
  with Cons.hyps have fits: "length c \<le> length (replicate len (CHR 0x00))" by simp
  show ?case
    unfolding kc using Cons.IH
    by (simp add: Read_delivering [OF fits])
qed

text \<open>The chunks \<open>"ab"\<close> and \<open>"cde"\<close> read with buffers of 2 and 8 bytes, and one read more.\<close>

theorem blobReader_Read_fitting_buffers_witness:
  "list_all2 (\<lambda>len kc. length (snd kc) \<le> len) [2, 8] [(0, ''ab''), (1, ''cde'')]
   \<and> read_with_buffers (blobReader (delivering [(0, ''ab''), (1, ''cde'')])) ([2, 8] @ [8])
       = Some (Inr [(''ab'', None), (''cde'', None), ('''', None)])"
  using blobReader_Read_fitting_buffers [of "[2, 8]" "[(0, ''ab''), (1, ''cde'')]" "[8]"]
  by simp

text \<open>\<open>promiseHack\<close> on a deferred value that never settles does not return.\<close>

theorem promiseHack_never_settles:
  "promiseHack (Pending :: 'a promise) = None"
  by (rule promiseHack_Pending)

text \<open>
  What \<open>promiseHack\<close> returns for a deferred value that is fulfilled, or rejected
  with an object or with no argument at all. Fulfilled with \<open>v\<close>: \<open>v\<close> and a nil
  error. Rejected with an object whose \<open>message\<close> is the string \<open>m\<close>: an error
  with the description \<open>m\<close> (for any \<open>message\<close> that is not undefined, its
  \<open>String()\<close>); with an object that has no \<open>message\<close>: the text the host coerces
  the object to; with no argument: an error with an empty description. The
  result returned with the error is null when the callback chained behind the
  rejection callback has run before the poller wakes, and undefined otherwise.
\<close>

theorem promiseHack_settled:
  "promiseHack (Settles k (Fulfilled [v]) :: 'a promise) = Some (Inr (Object v, None))
   \<and> (message_of obj = JString m \<longrightarrow>
        promiseHack (Settles k (Rejected gap [Object obj]) :: 'a promise)
          = Some (Inr (if gap = 0 then Null else Undefined, Some (errorString m))))
   \<and> (message_of obj \<noteq> Undefined \<longrightarrow>
        promiseHack (Settles k (Rejected gap [Object obj]) :: 'a promise)
          = Some (Inr (if gap = 0 then Null else Undefined,
                       Some (errorString (go_String (message_of obj))))))
   \<and> (message_of obj = Undefined \<longrightarrow>
        promiseHack (Settles k (Rejected gap [Object obj]) :: 'a promise)
          = Some (Inr (if gap = 0 then Null else Undefined, Some (errorString (coerced obj)))))
   \<and> promiseHack (Settles k (Rejected gap []) :: 'a promise)
        = Some (Inr (if gap = 0 then Null else Undefined, Some (errorString '''')))"
  by (simp add: promiseHack_Fulfilled promiseHack_Rejected rejection_message_def
      object_payload_def)

text \<open>
  At a \<open>TypeError\<close> with the message \<open>Failed to fetch\<close> and at a plain object with
  no \<open>message\<close>.
\<close>

theorem promiseHack_settled_witness:
  "message_of failed_fetch = JString ''Failed to fetch''
   \<and> promiseHack (Settles 3 (Rejected 0 [Object failed_fetch]) :: js_response promise)
        = Some (Inr (Null, Some (errorString ''Failed to fetch'')))
   \<and> message_of plain_object = Undefined
   \<and> promiseHack (Settles 3 (Rejected 1 [Object plain_object]) :: js_response promise)
        = Some (Inr (Undefined, Some (errorString ''[object Object]'')))"
  using promiseHack_settled [of 3 empty_response failed_fetch "''Failed to fetch''" 0]
    promiseHack_settled [of 3 empty_response plain_object "''''" 1]
  by (simp add: failed_fetch_def plain_object_def message_of_def)

text \<open>
  When the deferred value is rejected with an object, or with no argument at
  all, the rejection callback records the error, and the callback chained behind
  it changes the stored result only: \<open>promiseHack\<close> returns the recorded error,
  which is not nil.
\<close>

theorem promiseHack_rejection_keeps_error:
  "object_payload args \<Longrightarrow>
   promiseHack (Settles k (Rejected gap args) :: 'a promise)
     = Some (Inr (if gap = 0 then Null else Undefined,
                  Some (errorString (rejection_message args))))"
  by (simp add: promiseHack_Rejected)

text \<open>At the rejection with the \<open>TypeError\<close>, the chained callback running one sleep later.\<close>

theorem promiseHack_rejection_keeps_error_witness:
  "object_payload [Object failed_fetch]
   \<and> promiseHack (Settles 2 (Rejected 1 [Object failed_fetch]) :: js_response promise)
       = Some (Inr (Undefined, Some (errorString ''Failed to fetch'')))"
  using promiseHack_rejection_keeps_error [of "[Object failed_fetch]" 2 1]
  by (simp add: object_payload_def rejection_message_def failed_fetch_def message_of_def)

text \<open>
  \<open>Run\<close> on a Request with no stored error. When the host rejects with an object,
  \<open>Run\<close> returns a nil Response and the error of the rejection, with no further
  call into the host; when it rejects with a value that is not an object,
  \<open>Run\<close> panics. When the host resolves and the blob of the response resolves,
  \<open>Run\<close> returns a Response with the status, the status text, the headers and
  the size of the host's response, and a nil error. When the host never
  settles, \<open>Run\<close> never returns.
\<close>

theorem Run_settled:
  assumes "Error r = None"
  shows "(object_payload args \<longrightarrow>
            snd (Run D (\<lambda>u a. Settles k (Rejected gap args)) r)
              = Some (Inr ([], None, Some (errorString (rejection_message args)))))
       \<and> (\<not> object_payload args \<longrightarrow>
            snd (Run D (\<lambda>u a. Settles k (Rejected gap args)) r) = Some (Inl ValueError))
       \<and> (resp_blob f = Settles j (Fulfilled [b]) \<longrightarrow>
            snd (Run D (\<lambda>u a. Settles k (Fulfilled [f])) r)
              = Some (Inr ([Call_blob]
                           @ (if blob_size b = 0 then [] else [Call_stream, Call_getReader])
                           @ [Call_forEach],
                  Some \<lparr>RawResponse =
                    \<lparr>Status = resp_statusText f, StatusCode = resp_status f,
                     Header = goHeaders f,
                     Body = (if blob_size b = 0 then NopCloser (NewReader '''')
                             else NopCloser (blobReader (blob_stream b))),
                     ContentLength = blob_size b\<rparr>\<rparr>,
                  None)))
       \<and> snd (Run D (\<lambda>u a. Pending) r) = None"
  using assms
  by (simp add: Run_waits promiseHack_Rejected promiseHack_Fulfilled promiseHack_Pending
      fetch2http_def Let_def)

text \<open>
  \<open>Run\<close> at a POST Request, for a host that resolves with status 204 and an empty
  blob, one that rejects with the \<open>TypeError\<close>, and one that rejects with undefined.
\<close>

theorem Run_settled_witness:
  "Error post_zero_timeout = None
   \<and> resp_blob empty_response = Settles 2 (Fulfilled [\<lparr>blob_size = 0, blob_stream = []\<rparr>])
   \<and> snd (Run 0 (\<lambda>u a. Settles 7 (Fulfilled [empty_response])) post_zero_timeout)
       = Some (Inr ([Call_blob, Call_forEach],
           Some \<lparr>RawResponse =
             \<lparr>Status = ''No Content'', StatusCode = 204, Header = Map.empty,
              Body = NopCloser (NewReader ''''), ContentLength = 0\<rparr>\<rparr>,
           None))
   \<and> object_payload [Object failed_fetch]
   \<and> snd (Run 0 (\<lambda>u a. Settles 7 (Rejected 0 [Object failed_fetch])) post_zero_timeout)
       = Some (Inr ([], None, Some (errorString ''Failed to fetch'')))
   \<and> \<not> object_payload [Undefined]
   \<and> snd (Run 0 (\<lambda>u a. Settles 7 (Rejected 0 [Undefined])) post_zero_timeout)
       = Some (Inl ValueError)"
proof -
  have none: "Error post_zero_timeout = None"
    by (simp add: post_zero_timeout_def)
  have obj: "object_payload [Object failed_fetch]" and prim: "\<not> object_payload [Undefined]"
    by (simp_all add: object_payload_def)
  have msg: "rejection_message [Object failed_fetch] = ''Failed to fetch''"
    by (simp add: rejection_message_def failed_fetch_def message_of_def)
  have blob: "resp_blob empty_response
      = Settles 2 (Fulfilled [\<lparr>blob_size = 0, blob_stream = []\<rparr>])"
    by (simp add: empty_response_def)
  show ?thesis
    using Run_settled [OF none, of "[Object failed_fetch]" 0 7 0 empty_response 2
        "\<lparr>blob_size = 0, blob_stream = []\<rparr>"]
      Run_settled [OF none, of "[Undefined]" 0 7 0 empty_response 2
        "\<lparr>blob_size = 0, blob_stream = []\<rparr>"]
      none obj prim blob
    by (simp add: msg empty_response_def goHeaders_def)
qed

end
